theory Spec2Isabelle
  imports Complex_Main "HOL-Library.AList"
begin

section \<open>Shared data: fire records and size classes\<close>

text \<open>
  JavaScript numbers that carry areas, coordinates and zoom levels are modelled as exact
  reals; resolutions and fire ids are integers. A GeoJSON position is a pair of numbers.
  \<open>FireData\<close> keeps the fields of \<open>types/index.ts\<close> that the aggregation reads; the field
  \<open>id\<close> is called \<open>fire_id\<close>. \<open>shape = None\<close> stands for a record whose \<open>shape\<close> or
  \<open>shape.coordinates\<close> is missing (the frontend tests both for truthiness).
\<close>

type_synonym Position = "real \<times> real"
type_synonym Ring = "Position list"
type_synonym MultiPolygon = "Ring list list"

record FireData =
  fire_id :: int
  centroid :: Position
  shape :: "MultiPolygon option"
  area_ha :: real

datatype FireSize = small | medium | large | none

datatype H3Error = H3Failure

section \<open>Frontend: \<open>composables/useHexagonGrid.ts\<close> and \<open>composables/useFireData.ts\<close>\<close>

definition getResolutionForZoom :: "real \<Rightarrow> int" where
  "getResolutionForZoom zoom = (if zoom < 9 then 6 else 7)"

definition getFireSize :: "real \<Rightarrow> FireSize" where
  "getFireSize area =
     (if area < 10 then small else if area < 100 then medium else large)"

text \<open>
  The entries of \<open>hexagonFireMap\<close> (frontend, \<open>fires\<close> holds the records) and of
  \<open>hexagonData\<close> (backend, \<open>fires\<close> holds the ids, and a \<open>size\<close> field, here
  \<open>size_class\<close>, is added); the properties of a GeoJSON hexagon feature extend them.
  A JavaScript \<open>Map\<close> or object with string keys is an association list in insertion
  order: \<open>map_of\<close> reads it and \<open>AList.update\<close> writes it.
\<close>

record 'f HexAgg =
  totalArea :: real
  fireCount :: nat
  fires :: "'f list"

record 'f HexSized = "'f HexAgg" +
  size_class :: FireSize

record 'f HexProps = "'f HexSized" +
  h3Index :: string
  hasFireData :: bool
  averageArea :: real

type_synonym HexagonFireMap = "(string \<times> FireData HexAgg) list"
type_synonym Feature = "FireData HexProps"

definition emptyAgg :: "'f HexAgg" where
  "emptyAgg = \<lparr>totalArea = 0, fireCount = 0, fires = []\<rparr>"

text \<open>\<open>clearFireLayers\<close>: every feature's fire properties are reset.\<close>

definition resetProps :: "Feature \<Rightarrow> Feature" where
  "resetProps hexagon =
     hexagon\<lparr>hasFireData := False, totalArea := 0, fireCount := 0,
              averageArea := 0, size_class := none, fires := []\<rparr>"

definition clearFireLayers :: "Feature list \<Rightarrow> Feature list" where
  "clearFireLayers features = map resetProps features"

text \<open>
  The first \<open>forEach\<close> over the features: every hexagon gets a zero entry. (It also
  initialises the fire properties of a feature that has none; \<open>clearFireLayers\<close> has set
  them already, and the last loop writes all of them again.)
\<close>

fun initFireMap :: "Feature list \<Rightarrow> HexagonFireMap \<Rightarrow> HexagonFireMap" where
  "initFireMap [] m = m"
| "initFireMap (hexagon # rest) m =
     initFireMap rest (AList.update (h3Index hexagon) emptyAgg m)"

text \<open>\<open>coord => [coord[1], coord[0]]\<close> on every coordinate of every ring.\<close>

definition swapPos :: "Position \<Rightarrow> Position" where
  "swapPos coord = (snd coord, fst coord)"

definition toH3Polygons :: "MultiPolygon \<Rightarrow> MultiPolygon" where
  "toH3Polygons coordinates = map (map (map swapPos)) coordinates"

text \<open>
  The body of \<open>intersectingHexagons.forEach\<close>: \<open>n\<close> is \<open>intersectingHexagons.length\<close>;
  a cell that is not a key of the map is only logged.
\<close>

fun addToIntersecting ::
  "FireData \<Rightarrow> nat \<Rightarrow> string list \<Rightarrow> HexagonFireMap \<Rightarrow> HexagonFireMap" where
  "addToIntersecting fire n [] m = m"
| "addToIntersecting fire n (h # hs) m =
     addToIntersecting fire n hs
       (case map_of m h of
          Some hexagonData \<Rightarrow>
            AList.update h
              (hexagonData\<lparr>totalArea := totalArea hexagonData + area_ha fire / real n,
                            fireCount := fireCount hexagonData + 1,
                            fires := fires hexagonData @ [fire]\<rparr>) m
        | None \<Rightarrow> m)"

text \<open>
  The centroid path (used in the \<open>catch\<close> block and when there is no polygon):
  \<open>latLngToCell(lat, lng, currentResolution)\<close> of the h3 library is a parameter and may
  throw; nothing catches that, so the error leaves \<open>addFireDataToMap\<close>.
  \<open>polygonToCells\<close> is a parameter too: the h3 call as the frontend makes it, on the list
  of all polygons of the record (the backend hands h3 one polygon, a list of rings);
  when it throws, the \<open>catch\<close> block takes the centroid path.
\<close>

type_synonym LatLngToCell = "real \<Rightarrow> real \<Rightarrow> int \<Rightarrow> H3Error + string"
type_synonym PolygonsToCells = "MultiPolygon \<Rightarrow> int \<Rightarrow> H3Error + string list"

definition addByCentroid ::
  "LatLngToCell \<Rightarrow> int \<Rightarrow> FireData \<Rightarrow> HexagonFireMap \<Rightarrow> H3Error + HexagonFireMap" where
  "addByCentroid latLngToCell currentResolution fire m =
     (case centroid fire of (lng, lat) \<Rightarrow>
        (case latLngToCell lat lng currentResolution of
           Inl e \<Rightarrow> Inl e
         | Inr h \<Rightarrow>
             (case map_of m h of
                Some hexagonData \<Rightarrow>
                  Inr (AList.update h
                        (hexagonData\<lparr>totalArea := totalArea hexagonData + area_ha fire,
                                      fireCount := fireCount hexagonData + 1,
                                      fires := fires hexagonData @ [fire]\<rparr>) m)
              | None \<Rightarrow> Inr m)))"

text \<open>One iteration of \<open>fires.forEach\<close>.\<close>

definition addFire ::
  "PolygonsToCells \<Rightarrow> LatLngToCell \<Rightarrow> real \<Rightarrow> FireData \<Rightarrow> HexagonFireMap
     \<Rightarrow> H3Error + HexagonFireMap" where
  "addFire polygonToCells latLngToCell zoom fire m =
     (let currentResolution = getResolutionForZoom zoom in
      case shape fire of
        None \<Rightarrow> addByCentroid latLngToCell currentResolution fire m
      | Some coordinates \<Rightarrow>
          if length coordinates > 0 then
            (case polygonToCells (toH3Polygons coordinates) currentResolution of
               Inr intersectingHexagons \<Rightarrow>
                 Inr (addToIntersecting fire (length intersectingHexagons)
                        intersectingHexagons m)
             | Inl e \<Rightarrow> addByCentroid latLngToCell currentResolution fire m)
          else addByCentroid latLngToCell currentResolution fire m)"

fun addFires ::
  "PolygonsToCells \<Rightarrow> LatLngToCell \<Rightarrow> real \<Rightarrow> FireData list \<Rightarrow> HexagonFireMap
     \<Rightarrow> H3Error + HexagonFireMap" where
  "addFires polygonToCells latLngToCell zoom [] m = Inr m"
| "addFires polygonToCells latLngToCell zoom (fire # rest) m =
     (case addFire polygonToCells latLngToCell zoom fire m of
        Inl e \<Rightarrow> Inl e
      | Inr m' \<Rightarrow> addFires polygonToCells latLngToCell zoom rest m')"

text \<open>The second \<open>forEach\<close> over the features writes the aggregate into the properties.\<close>

definition updateProps :: "HexagonFireMap \<Rightarrow> Feature \<Rightarrow> Feature" where
  "updateProps m hexagon =
     (case map_of m (h3Index hexagon) of
        Some fireData \<Rightarrow>
          if fireCount fireData > 0 then
            hexagon\<lparr>hasFireData := True, totalArea := totalArea fireData,
                     fireCount := fireCount fireData,
                     averageArea := totalArea fireData / real (fireCount fireData),
                     size_class := getFireSize (totalArea fireData),
                     fires := fires fireData\<rparr>
          else resetProps hexagon
      | None \<Rightarrow> resetProps hexagon)"

text \<open>
  \<open>addFireDataToMap\<close> on the features of the \<open>hexagon-grid\<close> source (the map and the
  source are present): the result is the feature list handed to \<open>setData\<close>, or the h3
  error that leaves the function. Without fires the features are only cleared.
\<close>

definition addFireDataToMap ::
  "PolygonsToCells \<Rightarrow> LatLngToCell \<Rightarrow> real \<Rightarrow> Feature list \<Rightarrow> FireData list
     \<Rightarrow> H3Error + Feature list" where
  "addFireDataToMap polygonToCells latLngToCell zoom features fs =
     (let cleared = clearFireLayers features in
      if length fs = 0 then Inr cleared
      else
        (case addFires polygonToCells latLngToCell zoom fs (initFireMap cleared []) of
           Inl e \<Rightarrow> Inl e
         | Inr m \<Rightarrow> Inr (map (updateProps m) cleared)))"

section \<open>Backend: \<open>HexagonGridService\<close>\<close>

text \<open>
  The class \<open>HexagonGridService\<close> (its text is the second part of
  \<open>backend/scripts/collect-remaining-data.ts\<close>).
\<close>

record Viewport =
  north :: real
  south :: real
  east :: real
  west :: real

record HexagonCell =
  index :: string
  boundary :: Ring

record GridMetadata =
  totalHexagons :: nat
  generatedAt :: string
  viewport :: "Viewport option"
  spainBounds :: "Viewport option"

record HexagonGrid =
  resolution :: int
  hexagons :: "HexagonCell list"
  metadata :: GridMetadata

datatype GridError = InvalidResolution int | GenerationFailed H3Error

definition SPAIN_BOUNDS :: Viewport where
  "SPAIN_BOUNDS = \<lparr>north = 44.0, south = 35.8, east = 3.5, west = -9.5\<rparr>"

text \<open>
  \<open>x.toFixed(2)\<close> prints a sign for \<open>x < 0\<close> and the hundredths nearest to \<open>|x|\<close>, ties
  upwards; the pair of the sign and that number stands for the printed string. A cache
  file name is determined by the resolution and, for a viewport, the four printed bounds.
\<close>

type_synonym Fixed2 = "bool \<times> nat"

definition toFixed2 :: "real \<Rightarrow> Fixed2" where
  "toFixed2 x = (x < 0, nat \<lfloor>\<bar>x\<bar> * 100 + 1 / 2\<rfloor>)"

datatype CacheFile =
  SpainGridFile int
| ViewportGridFile int Fixed2 Fixed2 Fixed2 Fixed2

definition getCacheFilePath :: "int \<Rightarrow> Viewport option \<Rightarrow> CacheFile" where
  "getCacheFilePath res vp =
     (case vp of
        Some v \<Rightarrow>
          ViewportGridFile res (toFixed2 (west v)) (toFixed2 (south v))
            (toFixed2 (east v)) (toFixed2 (north v))
      | None \<Rightarrow> SpainGridFile res)"

definition HexagonGridService_getResolutionForZoom :: "real \<Rightarrow> int" where
  "HexagonGridService_getResolutionForZoom zoom = (if zoom < 9 then 6 else 7)"

text \<open>
  The h3 calls are parameters: \<open>polygonToCells\<close> on one polygon (a list of rings of
  \<open>[lat, lng]\<close> pairs) may throw, \<open>cellToBoundary index formatAsGeoJson\<close> returns the
  vertex ring of a cell. \<open>now\<close> is the value of \<open>new Date().toISOString()\<close>.
\<close>

type_synonym PolygonToCells = "Ring list \<Rightarrow> int \<Rightarrow> H3Error + string list"
type_synonym CellToBoundary = "string \<Rightarrow> bool \<Rightarrow> Ring"

definition boundsPolygon :: "Viewport \<Rightarrow> Ring list" where
  "boundsPolygon v =
     [[(south v, west v), (south v, east v), (north v, east v), (north v, west v),
       (south v, west v)]]"

definition toHexagons :: "CellToBoundary \<Rightarrow> string list \<Rightarrow> HexagonCell list" where
  "toHexagons cellToBoundary hexagonIndexes =
     map (\<lambda>i. \<lparr>index = i, boundary = cellToBoundary i False\<rparr>) hexagonIndexes"

definition generateHexagonGridForViewport ::
  "PolygonToCells \<Rightarrow> CellToBoundary \<Rightarrow> string \<Rightarrow> int \<Rightarrow> Viewport
     \<Rightarrow> H3Error + HexagonGrid" where
  "generateHexagonGridForViewport polygonToCells cellToBoundary now res vp =
     (case polygonToCells (boundsPolygon vp) res of
        Inl e \<Rightarrow> Inl e
      | Inr hexagonIndexes \<Rightarrow>
          (let hs = toHexagons cellToBoundary hexagonIndexes in
           Inr \<lparr>resolution = res, hexagons = hs,
                 metadata = \<lparr>totalHexagons = length hs, generatedAt = now,
                              viewport = Some vp, spainBounds = None\<rparr>\<rparr>))"

definition generateHexagonGridForSpain ::
  "PolygonToCells \<Rightarrow> CellToBoundary \<Rightarrow> string \<Rightarrow> int \<Rightarrow> H3Error + HexagonGrid" where
  "generateHexagonGridForSpain polygonToCells cellToBoundary now res =
     (case polygonToCells (boundsPolygon SPAIN_BOUNDS) res of
        Inl e \<Rightarrow> Inl e
      | Inr hexagonIndexes \<Rightarrow>
          (let hs = toHexagons cellToBoundary hexagonIndexes in
           Inr \<lparr>resolution = res, hexagons = hs,
                 metadata = \<lparr>totalHexagons = length hs, generatedAt = now,
                              viewport = None, spainBounds = Some SPAIN_BOUNDS\<rparr>\<rparr>))"

text \<open>
  The cache directory maps a file to the grid that reading and parsing it gives; \<open>None\<close>
  is a file that is missing or cannot be read or parsed (the \<open>catch\<close> branch). Writing
  may fail (\<open>writeOk = False\<close>); the failure is logged and the store stays as it was.
\<close>

type_synonym GridFiles = "CacheFile \<Rightarrow> HexagonGrid option"

definition writeFile :: "bool \<Rightarrow> CacheFile \<Rightarrow> HexagonGrid \<Rightarrow> GridFiles \<Rightarrow> GridFiles" where
  "writeFile writeOk path grid files = (if writeOk then files(path \<mapsto> grid) else files)"

definition getHexagonGridForViewport ::
  "PolygonToCells \<Rightarrow> CellToBoundary \<Rightarrow> string \<Rightarrow> bool \<Rightarrow> GridFiles \<Rightarrow> real \<Rightarrow> Viewport
     \<Rightarrow> (GridError + HexagonGrid) \<times> GridFiles" where
  "getHexagonGridForViewport polygonToCells cellToBoundary now writeOk files zoom vp =
     (let res = HexagonGridService_getResolutionForZoom zoom;
          cacheFilePath = getCacheFilePath res (Some vp) in
      case files cacheFilePath of
        Some grid \<Rightarrow> (Inr grid, files)
      | None \<Rightarrow>
          (case generateHexagonGridForViewport polygonToCells cellToBoundary now res vp of
             Inl e \<Rightarrow> (Inl (GenerationFailed e), files)
           | Inr grid \<Rightarrow> (Inr grid, writeFile writeOk cacheFilePath grid files)))"

definition getHexagonGridForSpain ::
  "PolygonToCells \<Rightarrow> CellToBoundary \<Rightarrow> string \<Rightarrow> bool \<Rightarrow> GridFiles \<Rightarrow> int
     \<Rightarrow> (GridError + HexagonGrid) \<times> GridFiles" where
  "getHexagonGridForSpain polygonToCells cellToBoundary now writeOk files res =
     (if res < 0 \<or> res > 15 then (Inl (InvalidResolution res), files)
      else
        (let cacheFilePath = getCacheFilePath res None in
         case files cacheFilePath of
           Some grid \<Rightarrow> (Inr grid, files)
         | None \<Rightarrow>
             (case generateHexagonGridForSpain polygonToCells cellToBoundary now res of
                Inl e \<Rightarrow> (Inl (GenerationFailed e), files)
              | Inr grid \<Rightarrow> (Inr grid, writeFile writeOk cacheFilePath grid files))))"

text \<open>The GeoJSON feature collection: one \<open>Polygon\<close> feature per hexagon.\<close>

record GridFeature =
  coordinates :: "Ring list"
  feature_h3Index :: string
  feature_resolution :: int

record GridGeoJSON =
  features :: "GridFeature list"
  geo_metadata :: GridMetadata

definition toFeature :: "int \<Rightarrow> HexagonCell \<Rightarrow> GridFeature" where
  "toFeature res hexagon =
     \<lparr>coordinates = [map (\<lambda>coord. (snd coord, fst coord)) (boundary hexagon)],
      feature_h3Index = index hexagon, feature_resolution = res\<rparr>"

definition toGeoJSON :: "HexagonGrid \<Rightarrow> GridGeoJSON" where
  "toGeoJSON grid =
     \<lparr>features = map (toFeature (resolution grid)) (hexagons grid),
      geo_metadata = metadata grid\<rparr>"

definition getHexagonGridAsGeoJSON ::
  "PolygonToCells \<Rightarrow> CellToBoundary \<Rightarrow> string \<Rightarrow> bool \<Rightarrow> GridFiles \<Rightarrow> real
     \<Rightarrow> Viewport option \<Rightarrow> (GridError + GridGeoJSON) \<times> GridFiles" where
  "getHexagonGridAsGeoJSON polygonToCells cellToBoundary now writeOk files zoom vp =
     (case (case vp of
              Some v \<Rightarrow>
                getHexagonGridForViewport polygonToCells cellToBoundary now writeOk files zoom v
            | None \<Rightarrow>
                getHexagonGridForSpain polygonToCells cellToBoundary now writeOk files
                  (HexagonGridService_getResolutionForZoom zoom)) of
        (Inl e, files') \<Rightarrow> (Inl e, files')
      | (Inr grid, files') \<Rightarrow> (Inr (toGeoJSON grid), files'))"

section \<open>Backend: \<open>CumulatedFireService\<close> and the route \<open>GET /api/cumulated-fires\<close>\<close>

text \<open>
  The class \<open>CumulatedFireService\<close> (its text is the second part of
  \<open>backend/src/services/standaloneDataCollector.ts\<close>) and the handler of
  \<open>backend/src/routes/cumulatedFireRoutes.ts\<close>. The ids pushed to \<open>fires\<close> are kept as
  integers rather than printed.
\<close>

type_synonym HexagonData = "(string \<times> int HexSized) list"

record CumulatedFireData =
  cumulated_resolution :: int
  hexagonData :: HexagonData
  dateRange :: "string \<times> string"
  totalFires :: nat
  totalAreaSum :: real

text \<open>
  \<open>totalAreaSum\<close> is the field \<open>totalArea\<close> of the result (the per-hexagon field has
  that name already) and \<open>cumulated_resolution\<close> its field \<open>resolution\<close>.
\<close>

definition CumulatedFireService_getFireSize :: "real \<Rightarrow> FireSize" where
  "CumulatedFireService_getFireSize area =
     (if area < 10 then small else if area < 100 then medium else large)"

definition newHexagon :: "int HexSized" where
  "newHexagon = \<lparr>totalArea = 0, fireCount = 0, fires = [], size_class = none\<rparr>"

definition addFireToHexagonByCentroid ::
  "LatLngToCell \<Rightarrow> FireData \<Rightarrow> int \<Rightarrow> HexagonData \<Rightarrow> H3Error + HexagonData" where
  "addFireToHexagonByCentroid latLngToCell fire res hexData =
     (case centroid fire of (lng, lat) \<Rightarrow>
        (case latLngToCell lat lng res of
           Inl e \<Rightarrow> Inl e
         | Inr h \<Rightarrow>
             (let hexData1 = (case map_of hexData h of
                           None \<Rightarrow> AList.update h newHexagon hexData
                         | Some _ \<Rightarrow> hexData);
                  hexData2 = AList.map_entry h (\<lambda>x. x\<lparr>totalArea := totalArea x + area_ha fire\<rparr>) hexData1;
                  hexData3 = AList.map_entry h (\<lambda>x. x\<lparr>fireCount := fireCount x + 1\<rparr>) hexData2
              in Inr (AList.map_entry h (\<lambda>x. x\<lparr>fires := fires x @ [fire_id fire]\<rparr>) hexData3))))"

text \<open>
  The loop \<open>for (const fire of fires)\<close> on the triple of \<open>hexagonData\<close>, \<open>totalFires\<close>
  and \<open>totalArea\<close>; an h3 error ends it (the enclosing \<open>catch\<close> rethrows).
\<close>

fun processFires ::
  "LatLngToCell \<Rightarrow> int \<Rightarrow> FireData list \<Rightarrow> HexagonData \<times> nat \<times> real
     \<Rightarrow> H3Error + HexagonData \<times> nat \<times> real" where
  "processFires latLngToCell res [] acc = Inr acc"
| "processFires latLngToCell res (fire # rest) (hexData, n, a) =
     (case addFireToHexagonByCentroid latLngToCell fire res hexData of
        Inl e \<Rightarrow> Inl e
      | Inr hexData' \<Rightarrow> processFires latLngToCell res rest (hexData', n + 1, a + area_ha fire))"

definition classifyHexagons :: "HexagonData \<Rightarrow> HexagonData" where
  "classifyHexagons hexData =
     map (\<lambda>(h, hexagon).
            (h, hexagon\<lparr>size_class := CumulatedFireService_getFireSize (totalArea hexagon)\<rparr>)) hexData"

text \<open>
  \<open>getFiresInDateRange\<close>: \<open>dates\<close> are the days the loop over \<open>currentDate\<close> visits and
  \<open>getDataForDate\<close> is the record store, which may fail for a day; such a day is skipped.
\<close>

datatype StoreError = NoData

fun getFiresInDateRange ::
  "(string \<Rightarrow> StoreError + FireData list) \<Rightarrow> string list \<Rightarrow> FireData list
     \<Rightarrow> FireData list" where
  "getFiresInDateRange getDataForDate [] allFires = allFires"
| "getFiresInDateRange getDataForDate (dateStr # rest) allFires =
     getFiresInDateRange getDataForDate rest
       (case getDataForDate dateStr of
          Inr dayData \<Rightarrow> if length dayData > 0 then allFires @ dayData else allFires
        | Inl e \<Rightarrow> allFires)"

text \<open>The body of the \<open>try\<close> block once the fires of the range are known.\<close>

definition cumulate ::
  "LatLngToCell \<Rightarrow> FireData list \<Rightarrow> string \<Rightarrow> string \<Rightarrow> int \<Rightarrow> H3Error + CumulatedFireData" where
  "cumulate latLngToCell fs startDate endDate res =
     (case processFires latLngToCell res fs ([], 0, 0) of
        Inl e \<Rightarrow> Inl e
      | Inr (hexData, n, a) \<Rightarrow>
          Inr \<lparr>cumulated_resolution = res, hexagonData = classifyHexagons hexData,
                dateRange = (startDate, endDate), totalFires = n, totalAreaSum = a\<rparr>)"

text \<open>
  The service's cache is a \<open>Map\<close> keyed by the string \<open>startDate_endDate_resolution\<close>,
  here the triple. \<open>daysOf\<close> gives the days between two dates.
\<close>

type_synonym CumulatedCache = "((string \<times> string \<times> int) \<times> CumulatedFireData) list"

definition calculateCumulatedFireData ::
  "LatLngToCell \<Rightarrow> (string \<Rightarrow> StoreError + FireData list) \<Rightarrow> (string \<Rightarrow> string \<Rightarrow> string list)
     \<Rightarrow> CumulatedCache \<Rightarrow> string \<Rightarrow> string \<Rightarrow> int
     \<Rightarrow> (H3Error + CumulatedFireData) \<times> CumulatedCache" where
  "calculateCumulatedFireData latLngToCell getDataForDate daysOf cache startDate endDate res =
     (let cacheKey = (startDate, endDate, res) in
      case map_of cache cacheKey of
        Some cached \<Rightarrow> (Inr cached, cache)
      | None \<Rightarrow>
          (case cumulate latLngToCell
                  (getFiresInDateRange getDataForDate (daysOf startDate endDate) [])
                  startDate endDate res of
             Inl e \<Rightarrow> (Inl e, cache)
           | Inr result \<Rightarrow> (Inr result, AList.update cacheKey result cache)))"

text \<open>
  The route. A query parameter is a string or absent; \<open>!x\<close> holds for an absent and for
  an empty one (the first test). \<open>dateRegexTest\<close> is the test of
  \<open>/^\d{4}-\d{2}-\d{2}$/\<close>; \<open>parseInt\<close> is a parameter, \<open>None\<close> being \<open>NaN\<close>.
\<close>

definition isDigit :: "char \<Rightarrow> bool" where
  "isDigit c = (c \<in> set ''0123456789'')"

fun dateRegexTest :: "string \<Rightarrow> bool" where
  "dateRegexTest [y1, y2, y3, y4, s1, m1, m2, s2, d1, d2] =
     (isDigit y1 \<and> isDigit y2 \<and> isDigit y3 \<and> isDigit y4 \<and> s1 = CHR ''-'' \<and>
      isDigit m1 \<and> isDigit m2 \<and> s2 = CHR ''-'' \<and> isDigit d1 \<and> isDigit d2)"
| "dateRegexTest _ = False"

datatype RouteError = MissingParameters | InvalidDateFormat | InvalidResolutionParam

datatype Response =
  Status400 RouteError
| Status200 CumulatedFireData
| Status500 H3Error

definition cumulatedFiresRoute ::
  "(string \<Rightarrow> int option) \<Rightarrow> LatLngToCell \<Rightarrow> (string \<Rightarrow> StoreError + FireData list)
     \<Rightarrow> (string \<Rightarrow> string \<Rightarrow> string list) \<Rightarrow> CumulatedCache
     \<Rightarrow> string option \<Rightarrow> string option \<Rightarrow> string option \<Rightarrow> Response \<times> CumulatedCache" where
  "cumulatedFiresRoute parseInt latLngToCell getDataForDate daysOf cache startDate endDate res =
     (case (startDate, endDate, res) of
        (Some sd, Some ed, Some r) \<Rightarrow>
          if sd = [] \<or> ed = [] \<or> r = [] then (Status400 MissingParameters, cache)
          else if \<not> dateRegexTest sd \<or> \<not> dateRegexTest ed
          then (Status400 InvalidDateFormat, cache)
          else
            (case parseInt r of
               None \<Rightarrow> (Status400 InvalidResolutionParam, cache)
             | Some resolutionNum \<Rightarrow>
                 if resolutionNum < 0 \<or> resolutionNum > 15
                 then (Status400 InvalidResolutionParam, cache)
                 else
                   (case calculateCumulatedFireData latLngToCell getDataForDate daysOf cache
                           sd ed resolutionNum of
                      (Inl e, cache') \<Rightarrow> (Status500 e, cache')
                    | (Inr cumulatedData, cache') \<Rightarrow> (Status200 cumulatedData, cache')))
      | _ \<Rightarrow> (Status400 MissingParameters, cache))"

section \<open>Notions used in the statements\<close>

text \<open>The size class as the specification words it, from a cell's count and area.\<close>

definition sizeClassSpec :: "nat \<Rightarrow> real \<Rightarrow> FireSize" where
  "sizeClassSpec count area =
     (if count = 0 then none
      else if area < 10 then small
      else if area < 100 then medium
      else large)"

text \<open>Sums over the entries of an aggregate, and the entries with at least one fire.\<close>

definition sumArea :: "(string \<times> ('f, 'z) HexAgg_scheme) list \<Rightarrow> real" where
  "sumArea al = sum_list (map (\<lambda>p. totalArea (snd p)) al)"

definition sumCount :: "(string \<times> ('f, 'z) HexAgg_scheme) list \<Rightarrow> nat" where
  "sumCount al = sum_list (map (\<lambda>p. fireCount (snd p)) al)"

definition allCounted :: "(string \<times> ('f, 'z) HexAgg_scheme) list \<Rightarrow> bool" where
  "allCounted al = (\<forall>p \<in> set al. 1 \<le> fireCount (snd p))"

text \<open>What one fire does to the entry of a hexagon, in the backend and in the frontend.\<close>

definition bump :: "FireData \<Rightarrow> int HexSized \<Rightarrow> int HexSized" where
  "bump fire x = x\<lparr>totalArea := totalArea x + area_ha fire, fireCount := fireCount x + 1,
                    fires := fires x @ [fire_id fire]\<rparr>"

text \<open>The entry of a cell after one more record, starting a new entry when there is none.\<close>

definition stepEntry :: "int HexSized option \<Rightarrow> FireData \<Rightarrow> int HexSized option" where
  "stepEntry entry fire =
     Some (bump fire (case entry of None \<Rightarrow> newHexagon | Some x \<Rightarrow> x))"

definition bumpAgg :: "FireData \<Rightarrow> real \<Rightarrow> FireData HexAgg \<Rightarrow> FireData HexAgg" where
  "bumpAgg fire x d = d\<lparr>totalArea := totalArea d + x, fireCount := fireCount d + 1,
                       fires := fires d @ [fire]\<rparr>"

text \<open>
  The cell of a record's centroid, and the entry that binning by centroid gives a cell:
  none when no record of the list resolves to the cell, otherwise the sum of the areas,
  the number and the ids of the records that do, with the size class of that sum.
\<close>

definition centroidCell :: "LatLngToCell \<Rightarrow> int \<Rightarrow> FireData \<Rightarrow> H3Error + string" where
  "centroidCell latLngToCell res fire =
     latLngToCell (snd (centroid fire)) (fst (centroid fire)) res"

definition centroidBin ::
  "LatLngToCell \<Rightarrow> int \<Rightarrow> FireData list \<Rightarrow> string \<Rightarrow> int HexSized option" where
  "centroidBin latLngToCell res fs h =
     (let mine = filter (\<lambda>fire. centroidCell latLngToCell res fire = Inr h) fs in
      if mine = [] then None
      else Some \<lparr>totalArea = sum_list (map area_ha mine), fireCount = length mine,
                 fires = map fire_id mine,
                 size_class = CumulatedFireService_getFireSize (sum_list (map area_ha mine))\<rparr>)"

text \<open>The invariant of a cumulated result, and a cache that holds such results only.\<close>

definition resultInv :: "CumulatedFireData \<Rightarrow> bool" where
  "resultInv r =
     (allCounted (hexagonData r) \<and> sumCount (hexagonData r) = totalFires r \<and>
      sumArea (hexagonData r) = totalAreaSum r)"

definition cacheInv :: "CumulatedCache \<Rightarrow> bool" where
  "cacheInv cache = (\<forall>p \<in> set cache. resultInv (snd p))"

text \<open>The centroid of a record resolves to a cell (\<open>latLngToCell\<close> does not throw).\<close>

definition resolves :: "LatLngToCell \<Rightarrow> int \<Rightarrow> FireData \<Rightarrow> bool" where
  "resolves latLngToCell res fire =
     (case latLngToCell (snd (centroid fire)) (fst (centroid fire)) res of
        Inl e \<Rightarrow> False | Inr h \<Rightarrow> True)"

text \<open>A ring is closed when it has a vertex and its first vertex is its last.\<close>

definition closedRing :: "Ring \<Rightarrow> bool" where
  "closedRing r = (case r of [] \<Rightarrow> False | v # vs \<Rightarrow> v = last (v # vs))"

text \<open>A viewport that lies wholly outside the bounds of the covered territory.\<close>

definition outsideSpain :: "Viewport \<Rightarrow> bool" where
  "outsideSpain v =
     (south v > north SPAIN_BOUNDS \<or> north v < south SPAIN_BOUNDS \<or>
      west v > east SPAIN_BOUNDS \<or> east v < west SPAIN_BOUNDS)"

section \<open>Sample inputs\<close>

text \<open>
  Stand-ins for the h3 calls and the record store, one record with a centroid only, one
  with a polygon, and a grid feature without fire data. \<open>rejects_polygons\<close> is the
  frontend's polygon call throwing, \<open>cover_ab\<close> a covering of one polygon by two cells.
\<close>

definition madrid_fire :: FireData where
  "madrid_fire = \<lparr>fire_id = 3, centroid = (-3.7, 40.4), shape = None, area_ha = 20\<rparr>"

definition cell_c :: LatLngToCell where
  "cell_c lat lng res = Inr ''c''"

definition one_day_store :: "string \<Rightarrow> StoreError + FireData list" where
  "one_day_store dateStr = (if dateStr = ''2025-08-01'' then Inr [madrid_fire] else Inl NoData)"

definition two_days :: "string \<Rightarrow> string \<Rightarrow> string list" where
  "two_days startDate endDate = [''2025-08-01'', ''2025-08-02'']"

definition madrid_result :: CumulatedFireData where
  "madrid_result =
     \<lparr>cumulated_resolution = 6,
      hexagonData = [(''c'', \<lparr>totalArea = 20, fireCount = 1, fires = [3], size_class = medium\<rparr>)],
      dateRange = (''2025-08-01'', ''2025-08-02''), totalFires = 1, totalAreaSum = 20\<rparr>"

definition gridFeature :: "string \<Rightarrow> Feature" where
  "gridFeature h =
     \<lparr>totalArea = 0, fireCount = 0, fires = [], size_class = none, h3Index = h,
      hasFireData = False, averageArea = 0\<rparr>"

definition cells_ab :: PolygonsToCells where
  "cells_ab polygons res = Inr [''a'', ''b'']"

definition triangle_fire :: FireData where
  "triangle_fire =
     \<lparr>fire_id = 2, centroid = (-3.7, 40.3),
      shape = Some [[[(-3.9, 40.2), (-3.6, 40.2), (-3.6, 40.5), (-3.9, 40.2)]]],
      area_ha = 40000\<rparr>"

definition madrid_features :: "Feature list" where
  "madrid_features =
     [gridFeature ''a'',
      (gridFeature ''c'')\<lparr>hasFireData := True, totalArea := 20, fireCount := 1,
        averageArea := 20, size_class := medium, fires := [madrid_fire]\<rparr>]"

definition cover_x :: PolygonToCells where
  "cover_x rings res = Inr [''x'']"

definition cover_fails :: PolygonToCells where
  "cover_fails rings res = Inl H3Failure"

definition hexagon_ring :: CellToBoundary where
  "hexagon_ring i formatAsGeoJson =
     (if formatAsGeoJson
      then [(2.30, 48.60), (2.34, 48.62), (2.34, 48.66), (2.30, 48.68), (2.26, 48.66),
            (2.26, 48.62), (2.30, 48.60)]
      else [(48.60, 2.30), (48.62, 2.34), (48.66, 2.34), (48.68, 2.30), (48.66, 2.26),
            (48.62, 2.26)])"

definition paris_view :: Viewport where
  "paris_view = \<lparr>north = 49.0, south = 48.5, east = 2.6, west = 2.0\<rparr>"

definition spain_grid_x :: HexagonGrid where
  "spain_grid_x =
     \<lparr>resolution = 6,
      hexagons = [\<lparr>index = ''x'', boundary = hexagon_ring ''x'' False\<rparr>],
      metadata = \<lparr>totalHexagons = 1, generatedAt = ''2025-08-02T10:00:00.000Z'',
                   viewport = None, spainBounds = Some SPAIN_BOUNDS\<rparr>\<rparr>"

definition paris_grid_x :: HexagonGrid where
  "paris_grid_x =
     \<lparr>resolution = 6,
      hexagons = [\<lparr>index = ''x'', boundary = hexagon_ring ''x'' False\<rparr>],
      metadata = \<lparr>totalHexagons = 1, generatedAt = ''2025-08-02T10:00:00.000Z'',
                   viewport = Some paris_view, spainBounds = None\<rparr>\<rparr>"

definition parse_sample :: "string \<Rightarrow> int option" where
  "parse_sample s = (if s = ''99'' then Some 99 else if s = ''6'' then Some 6 else None)"

definition grid_ab :: HexagonFireMap where
  "grid_ab = [(''a'', emptyAgg), (''b'', emptyAgg)]"

definition triangle_rings :: MultiPolygon where
  "triangle_rings = [[[(-3.9, 40.2), (-3.6, 40.2), (-3.6, 40.5), (-3.9, 40.2)]]]"

definition rejects_polygons :: PolygonsToCells where
  "rejects_polygons polygons res = Inl H3Failure"

definition cover_ab :: PolygonToCells where
  "cover_ab rings res = Inr [''a'', ''b'']"

definition cell_a :: LatLngToCell where
  "cell_a lat lng res = Inr ''a''"

definition triangle_whole :: "FireData HexAgg" where
  "triangle_whole = \<lparr>totalArea = 40000, fireCount = 1, fires = [triangle_fire]\<rparr>"

definition triangle_result :: CumulatedFireData where
  "triangle_result =
     \<lparr>cumulated_resolution = 6,
      hexagonData = [(''a'', \<lparr>totalArea = 40000, fireCount = 1, fires = [2], size_class = large\<rparr>)],
      dateRange = (''2025-08-01'', ''2025-08-02''), totalFires = 1, totalAreaSum = 40000\<rparr>"

section \<open>Association lists: entries changed in place\<close>

lemma map_entry_absent: "h \<notin> fst ` set al \<Longrightarrow> AList.map_entry h f al = al"
  by (induction al) auto

lemma update_absent: "h \<notin> fst ` set al \<Longrightarrow> AList.update h v al = al @ [(h, v)]"
  by (induction al) auto

lemma map_entry_append_absent:
  "h \<notin> fst ` set al \<Longrightarrow> AList.map_entry h f (al @ [(h, v)]) = al @ [(h, f v)]"
  by (induction al) auto

lemma map_entry_twice:
  "AList.map_entry h f (AList.map_entry h g al) = AList.map_entry h (\<lambda>x. f (g x)) al"
  by (induction al) auto

lemma update_as_map_entry:
  "map_of al h = Some d \<Longrightarrow> AList.update h (f d) al = AList.map_entry h f al"
  by (induction al) (auto split: if_splits)

lemma map_fst_map_entry: "map fst (AList.map_entry h f al) = map fst al"
  by (induction al) auto

lemma set_map_entry:
  "p \<in> set (AList.map_entry h f al) \<Longrightarrow> p \<in> set al \<or> (\<exists>x. (h, x) \<in> set al \<and> p = (h, f x))"
  by (induction al) (auto split: if_splits)

lemma sum_map_entry:
  fixes g :: "'v \<Rightarrow> 'a::comm_monoid_add"
  assumes "\<And>x. g (f x) = g x + c" and "h \<in> fst ` set al"
  shows "sum_list (map (\<lambda>p. g (snd p)) (AList.map_entry h f al)) =
         sum_list (map (\<lambda>p. g (snd p)) al) + c"
  using assms(2)
proof (induction al)
  case Nil
  then show ?case by simp
next
  case (Cons p ps)
  show ?case
  proof (cases "fst p = h")
    case True
    then show ?thesis by (simp add: assms(1) ac_simps)
  next
    case False
    with Cons show ?thesis by (auto simp: ac_simps)
  qed
qed

section \<open>Backend: the effect of binning by centroid\<close>

lemma addFireToHexagonByCentroid_eq:
  "addFireToHexagonByCentroid latLngToCell fire res hexData =
     (case latLngToCell (snd (centroid fire)) (fst (centroid fire)) res of
        Inl e \<Rightarrow> Inl e
      | Inr h \<Rightarrow>
          Inr (if h \<in> fst ` set hexData then AList.map_entry h (bump fire) hexData
               else hexData @ [(h, bump fire newHexagon)]))"
proof (cases "latLngToCell (snd (centroid fire)) (fst (centroid fire)) res")
  case (Inl e)
  then show ?thesis
    by (simp add: addFireToHexagonByCentroid_def case_prod_beta)
next
  case (Inr h)
  show ?thesis
  proof (cases "h \<in> fst ` set hexData")
    case True
    then obtain y where "map_of hexData h = Some y"
      by (metis map_of_eq_None_iff not_Some_eq)
    with Inr True show ?thesis
      by (simp add: addFireToHexagonByCentroid_def case_prod_beta map_entry_twice
          bump_def [abs_def])
  next
    case False
    then have "map_of hexData h = None"
      by (simp add: map_of_eq_None_iff)
    with Inr False show ?thesis
      by (simp add: addFireToHexagonByCentroid_def case_prod_beta update_absent
          map_entry_append_absent bump_def)
  qed
qed

lemma addFireToHexagonByCentroid_effect:
  assumes "addFireToHexagonByCentroid latLngToCell fire res hexData = Inr hexData'"
  shows "sumArea hexData' = sumArea hexData + area_ha fire"
    and "sumCount hexData' = sumCount hexData + 1"
    and "allCounted hexData \<Longrightarrow> allCounted hexData'"
proof -
  from assms obtain h where
    h: "hexData' = (if h \<in> fst ` set hexData then AList.map_entry h (bump fire) hexData
                   else hexData @ [(h, bump fire newHexagon)])"
    by (auto simp: addFireToHexagonByCentroid_eq split: sum.splits)
  show "sumArea hexData' = sumArea hexData + area_ha fire"
    unfolding sumArea_def h
    by (simp add: sum_map_entry [where g = totalArea and c = "area_ha fire"] bump_def
        newHexagon_def)
  show "sumCount hexData' = sumCount hexData + 1"
    unfolding sumCount_def h
    by (simp add: sum_map_entry [where g = fireCount and c = 1] bump_def newHexagon_def)
  show "allCounted hexData'" if "allCounted hexData"
    using that unfolding allCounted_def h
    by (auto simp: bump_def dest!: set_map_entry)
qed

lemma processFires_effect:
  "processFires latLngToCell res fs (hexData, n, a) = Inr (hexData', n', a') \<Longrightarrow>
     n' = n + length fs \<and> a' = a + sum_list (map area_ha fs) \<and>
     sumCount hexData' = sumCount hexData + length fs \<and>
     sumArea hexData' = sumArea hexData + sum_list (map area_ha fs) \<and>
     (allCounted hexData \<longrightarrow> allCounted hexData')"
proof (induction fs arbitrary: hexData n a)
  case Nil
  then show ?case by simp
next
  case (Cons fire rest)
  from Cons.prems obtain hd1 where
    step: "addFireToHexagonByCentroid latLngToCell fire res hexData = Inr hd1" and
    rest: "processFires latLngToCell res rest (hd1, n + 1, a + area_ha fire) = Inr (hexData', n', a')"
    by (auto split: sum.splits)
  from Cons.IH [OF rest] addFireToHexagonByCentroid_effect [OF step]
  show ?case by simp
qed

section \<open>Totals, invariant and size classes of the aggregates\<close>

lemma classifyHexagons_measures:
  "sumArea (classifyHexagons hexData) = sumArea hexData"
  "sumCount (classifyHexagons hexData) = sumCount hexData"
  "allCounted (classifyHexagons hexData) = allCounted hexData"
  by (auto simp: classifyHexagons_def sumArea_def sumCount_def allCounted_def comp_def
      case_prod_beta)

lemma measures_Nil: "sumArea [] = 0" "sumCount [] = 0" "allCounted []"
  by (simp_all add: sumArea_def sumCount_def allCounted_def)

lemma processFires_resolves:
  "(\<forall>fire \<in> set fs. resolves latLngToCell res fire) \<Longrightarrow>
   \<exists>out. processFires latLngToCell res fs acc = Inr out"
proof (induction fs arbitrary: acc)
  case Nil
  show ?case by (rule exI [of _ acc]) simp
next
  case (Cons fire rest)
  obtain hexData n a where acc: "acc = (hexData, n, a)"
    using prod_cases3 by blast
  from Cons.prems have "resolves latLngToCell res fire" by simp
  then obtain hexData' where
    "addFireToHexagonByCentroid latLngToCell fire res hexData = Inr hexData'"
    by (auto simp: resolves_def addFireToHexagonByCentroid_eq split: sum.splits)
  with Cons acc show ?case by simp
qed

lemma cumulate_Inr:
  assumes "cumulate latLngToCell fs startDate endDate res = Inr r"
  shows "totalFires r = length fs" and "totalAreaSum r = sum_list (map area_ha fs)"
    and "resultInv r"
proof -
  from assms obtain hexData n a where
    p: "processFires latLngToCell res fs ([], 0, 0) = Inr (hexData, n, a)" and
    r: "r = \<lparr>cumulated_resolution = res, hexagonData = classifyHexagons hexData,
              dateRange = (startDate, endDate), totalFires = n, totalAreaSum = a\<rparr>"
    by (auto simp: cumulate_def split: sum.splits)
  from processFires_effect [OF p]
  show "totalFires r = length fs" and "totalAreaSum r = sum_list (map area_ha fs)"
    and "resultInv r"
    by (simp_all add: r resultInv_def classifyHexagons_measures measures_Nil)
qed

lemma cumulate_madrid:
  "cumulate cell_c [madrid_fire] ''2025-08-01'' ''2025-08-02'' 6 = Inr madrid_result"
  by (simp add: cumulate_def addFireToHexagonByCentroid_def madrid_fire_def cell_c_def
      newHexagon_def classifyHexagons_def CumulatedFireService_getFireSize_def
      madrid_result_def)

lemma cacheInv_update:
  "cacheInv cache \<Longrightarrow> map_of cache k = None \<Longrightarrow> resultInv r \<Longrightarrow>
   cacheInv (AList.update k r cache)"
  by (simp add: cacheInv_def update_absent map_of_eq_None_iff)

lemma calculate_madrid:
  "calculateCumulatedFireData cell_c one_day_store two_days [] ''2025-08-01'' ''2025-08-02'' 6 =
     (Inr madrid_result, [((''2025-08-01'', ''2025-08-02'', 6), madrid_result)])"
  by (simp add: calculateCumulatedFireData_def two_days_def one_day_store_def cumulate_madrid)

lemma cumulate_resolves:
  assumes "\<forall>fire \<in> set fs. resolves latLngToCell res fire"
  shows "\<exists>r. cumulate latLngToCell fs startDate endDate res = Inr r"
proof -
  from processFires_resolves [OF assms]
  obtain out where "processFires latLngToCell res fs ([], 0, 0) = Inr out"
    by blast
  then show ?thesis
    by (cases out) (simp add: cumulate_def)
qed

lemma calculate_resolves:
  assumes "\<forall>fire \<in> set (getFiresInDateRange getDataForDate (daysOf startDate endDate) []).
             resolves latLngToCell res fire"
  shows "\<exists>r cache'. calculateCumulatedFireData latLngToCell getDataForDate daysOf cache
                       startDate endDate res = (Inr r, cache')"
proof (cases "map_of cache (startDate, endDate, res)")
  case None
  from cumulate_resolves [OF assms] obtain r where
    "cumulate latLngToCell (getFiresInDateRange getDataForDate (daysOf startDate endDate) [])
       startDate endDate res = Inr r"
    by blast
  with None show ?thesis
    by (simp add: calculateCumulatedFireData_def)
next
  case (Some cached)
  then show ?thesis
    by (simp add: calculateCumulatedFireData_def)
qed

lemma calculate_miss:
  assumes "map_of cache (startDate, endDate, res) = None"
    and "calculateCumulatedFireData latLngToCell getDataForDate daysOf cache startDate endDate res
           = (Inr r, cache')"
  shows "cumulate latLngToCell (getFiresInDateRange getDataForDate (daysOf startDate endDate) [])
           startDate endDate res = Inr r"
    and "cache' = AList.update (startDate, endDate, res) r cache"
  using assms by (auto simp: calculateCumulatedFireData_def split: sum.splits)

text \<open>
  C3: the totals of a cumulated result are taken over the input records: \<open>totalFires\<close> is
  their number and \<open>totalArea\<close> the sum of their \<open>area_ha\<close>, whatever cells they were
  binned to, for the records handed to the aggregation and for the records that
  \<open>calculateCumulatedFireData\<close> gathers on a cache miss; and the aggregation does return
  a result when every centroid resolves.
\<close>

theorem totals_over_input_records:
  "(cumulate latLngToCell fs startDate endDate res = Inr r \<longrightarrow>
      totalFires r = length fs \<and> totalAreaSum r = sum_list (map area_ha fs)) \<and>
   ((\<forall>fire \<in> set fs. resolves latLngToCell res fire) \<longrightarrow>
      (\<exists>r'. cumulate latLngToCell fs startDate endDate res = Inr r')) \<and>
   (map_of cache (startDate, endDate, res) = None \<and>
    calculateCumulatedFireData latLngToCell getDataForDate daysOf cache startDate endDate res
      = (Inr r, cache') \<longrightarrow>
      totalFires r =
        length (getFiresInDateRange getDataForDate (daysOf startDate endDate) []) \<and>
      totalAreaSum r =
        sum_list (map area_ha
          (getFiresInDateRange getDataForDate (daysOf startDate endDate) [])))"
proof (intro conjI impI)
  assume "cumulate latLngToCell fs startDate endDate res = Inr r"
  then show "totalFires r = length fs" and "totalAreaSum r = sum_list (map area_ha fs)"
    by (rule cumulate_Inr)+
next
  assume "\<forall>fire \<in> set fs. resolves latLngToCell res fire"
  then show "\<exists>r'. cumulate latLngToCell fs startDate endDate res = Inr r'"
    by (rule cumulate_resolves)
next
  assume "map_of cache (startDate, endDate, res) = None \<and>
    calculateCumulatedFireData latLngToCell getDataForDate daysOf cache startDate endDate res
      = (Inr r, cache')"
  then have c: "cumulate latLngToCell
                  (getFiresInDateRange getDataForDate (daysOf startDate endDate) [])
                  startDate endDate res = Inr r"
    by (auto dest: calculate_miss(1))
  from c show "totalFires r =
        length (getFiresInDateRange getDataForDate (daysOf startDate endDate) [])"
    by (rule cumulate_Inr)
  from c show "totalAreaSum r =
        sum_list (map area_ha
          (getFiresInDateRange getDataForDate (daysOf startDate endDate) []))"
    by (rule cumulate_Inr)
qed

lemma fires_madrid: "getFiresInDateRange one_day_store (two_days s e) [] = [madrid_fire]"
  by (simp add: two_days_def one_day_store_def)

theorem totals_over_input_records_witness:
  "cumulate cell_c [madrid_fire] ''2025-08-01'' ''2025-08-02'' 6 = Inr madrid_result \<and>
   resolves cell_c 6 madrid_fire \<and>
   map_of [] (''2025-08-01'', ''2025-08-02'', 6::int) = (None::CumulatedFireData option) \<and>
   calculateCumulatedFireData cell_c one_day_store two_days [] ''2025-08-01'' ''2025-08-02'' 6 =
     (Inr madrid_result, [((''2025-08-01'', ''2025-08-02'', 6), madrid_result)]) \<and>
   getFiresInDateRange one_day_store (two_days ''2025-08-01'' ''2025-08-02'') [] = [madrid_fire] \<and>
   totalFires madrid_result = length [madrid_fire] \<and>
   totalAreaSum madrid_result = sum_list (map area_ha [madrid_fire])"
  using totals_over_input_records
          [of cell_c "[madrid_fire]" "''2025-08-01''" "''2025-08-02''" 6 madrid_result "[]"
              one_day_store two_days
              "[((''2025-08-01'', ''2025-08-02'', 6), madrid_result)]"]
    cumulate_madrid calculate_madrid fires_madrid
  by (simp add: resolves_def cell_c_def)

text \<open>
  C10: in every result of \<open>calculateCumulatedFireData\<close> (computed, or taken from a cache
  that holds such results) every hexagon entry has \<open>fireCount \<ge> 1\<close>, the fire counts add
  up to \<open>totalFires\<close> and the areas add up to \<open>totalArea\<close>; the cache keeps the property;
  and a result is returned when every centroid resolves.
\<close>

theorem cumulated_result_invariant:
  assumes "cacheInv cache"
  shows "(calculateCumulatedFireData latLngToCell getDataForDate daysOf cache startDate endDate res
            = (Inr r, cache') \<longrightarrow>
          allCounted (hexagonData r) \<and> sumCount (hexagonData r) = totalFires r \<and>
          sumArea (hexagonData r) = totalAreaSum r \<and> cacheInv cache') \<and>
         ((\<forall>fire \<in> set (getFiresInDateRange getDataForDate (daysOf startDate endDate) []).
             resolves latLngToCell res fire) \<longrightarrow>
          (\<exists>r' cache''. calculateCumulatedFireData latLngToCell getDataForDate daysOf cache
                           startDate endDate res = (Inr r', cache'')))"
proof (intro conjI impI)
  assume run: "calculateCumulatedFireData latLngToCell getDataForDate daysOf cache
                 startDate endDate res = (Inr r, cache')"
  have "resultInv r \<and> cacheInv cache'"
  proof (cases "map_of cache (startDate, endDate, res)")
    case (Some cached)
    with run have "r = cached" and "cache' = cache"
      by (simp_all add: calculateCumulatedFireData_def)
    moreover from Some have "((startDate, endDate, res), cached) \<in> set cache"
      by (rule map_of_SomeD)
    ultimately show ?thesis
      using assms by (auto simp: cacheInv_def)
  next
    case None
    from calculate_miss(1) [OF None run] have "resultInv r"
      by (rule cumulate_Inr)
    with assms None calculate_miss(2) [OF None run] show ?thesis
      by (simp add: cacheInv_update)
  qed
  then show "allCounted (hexagonData r)" and "sumCount (hexagonData r) = totalFires r"
    and "sumArea (hexagonData r) = totalAreaSum r" and "cacheInv cache'"
    by (simp_all add: resultInv_def)
next
  assume "\<forall>fire \<in> set (getFiresInDateRange getDataForDate (daysOf startDate endDate) []).
            resolves latLngToCell res fire"
  then show "\<exists>r' cache''. calculateCumulatedFireData latLngToCell getDataForDate daysOf cache
                            startDate endDate res = (Inr r', cache'')"
    by (rule calculate_resolves)
qed

theorem cumulated_result_invariant_witness:
  "cacheInv [] \<and>
   calculateCumulatedFireData cell_c one_day_store two_days [] ''2025-08-01'' ''2025-08-02'' 6 =
     (Inr madrid_result, [((''2025-08-01'', ''2025-08-02'', 6), madrid_result)]) \<and>
   getFiresInDateRange one_day_store (two_days ''2025-08-01'' ''2025-08-02'') [] = [madrid_fire] \<and>
   resolves cell_c 6 madrid_fire \<and>
   allCounted (hexagonData madrid_result) \<and>
   sumCount (hexagonData madrid_result) = totalFires madrid_result \<and>
   sumArea (hexagonData madrid_result) = totalAreaSum madrid_result \<and>
   cacheInv [((''2025-08-01'', ''2025-08-02'', 6), madrid_result)]"
proof -
  have inv: "cacheInv []" by (simp add: cacheInv_def)
  have res: "resolves cell_c 6 madrid_fire" by (simp add: resolves_def cell_c_def)
  from cumulated_result_invariant
         [OF inv, of cell_c one_day_store two_days "''2025-08-01''" "''2025-08-02''" 6
            madrid_result "[((''2025-08-01'', ''2025-08-02'', 6), madrid_result)]"]
    inv res calculate_madrid fires_madrid
  show ?thesis by simp
qed

lemma resetProps_size:
  "size_class (resetProps g) = sizeClassSpec (fireCount (resetProps g)) (totalArea (resetProps g))"
  by (simp add: resetProps_def sizeClassSpec_def)

lemma updateProps_size:
  "size_class (updateProps m g) =
     sizeClassSpec (fireCount (updateProps m g)) (totalArea (updateProps m g))"
  by (simp add: updateProps_def resetProps_def sizeClassSpec_def getFireSize_def
      split: option.splits)

lemma classifyHexagons_size:
  "allCounted hexData \<Longrightarrow> p \<in> set (classifyHexagons hexData) \<Longrightarrow>
   size_class (snd p) = sizeClassSpec (fireCount (snd p)) (totalArea (snd p))"
  by (auto simp: classifyHexagons_def allCounted_def sizeClassSpec_def
      CumulatedFireService_getFireSize_def)

text \<open>
  C1: the size class of every aggregated cell, in the features the frontend hands to the
  map and in the hexagon entries the backend returns, is a function of the cell's fire
  count and total area: \<open>none\<close> for no fire, otherwise \<open>small\<close> below 10, \<open>medium\<close> from 10
  and below 100, \<open>large\<close> from 100; so 9.999, 10, 99.999 and 100 are small, medium, medium
  and large.
\<close>
theorem size_class_from_area_and_count:
  "(addFireDataToMap polygonToCells latLngToCell zoom grid fs = Inr out \<longrightarrow>
      (\<forall>f \<in> set out. size_class f = sizeClassSpec (fireCount f) (totalArea f))) \<and>
   (cumulate latLngToCell fs startDate endDate res = Inr r \<longrightarrow>
      (\<forall>p \<in> set (hexagonData r).
         size_class (snd p) = sizeClassSpec (fireCount (snd p)) (totalArea (snd p)))) \<and>
   getFireSize 9.999 = small \<and> getFireSize 10.0 = medium \<and>
   getFireSize 99.999 = medium \<and> getFireSize 100.0 = large \<and>
   CumulatedFireService_getFireSize 9.999 = small \<and>
   CumulatedFireService_getFireSize 10.0 = medium \<and>
   CumulatedFireService_getFireSize 99.999 = medium \<and>
   CumulatedFireService_getFireSize 100.0 = large"
proof (intro conjI impI ballI)
  fix f
  assume "addFireDataToMap polygonToCells latLngToCell zoom grid fs = Inr out"
    and "f \<in> set out"
  then show "size_class f = sizeClassSpec (fireCount f) (totalArea f)"
    by (auto simp: addFireDataToMap_def Let_def clearFireLayers_def resetProps_size
        updateProps_size split: if_splits sum.splits)
next
  fix p
  assume c: "cumulate latLngToCell fs startDate endDate res = Inr r"
    and p: "p \<in> set (hexagonData r)"
  from c obtain hexData n a where
    pf: "processFires latLngToCell res fs ([], 0, 0) = Inr (hexData, n, a)" and
    r: "hexagonData r = classifyHexagons hexData"
    by (auto simp: cumulate_def split: sum.splits)
  from processFires_effect [OF pf] have "allCounted hexData"
    by (simp add: measures_Nil)
  with p r show "size_class (snd p) = sizeClassSpec (fireCount (snd p)) (totalArea (snd p))"
    by (simp add: classifyHexagons_size)
qed (simp_all add: getFireSize_def CumulatedFireService_getFireSize_def)

lemma addFireDataToMap_madrid:
  "addFireDataToMap cells_ab cell_c 5 [gridFeature ''a'', gridFeature ''c''] [madrid_fire] =
     Inr madrid_features"
  by (simp add: addFireDataToMap_def clearFireLayers_def resetProps_def gridFeature_def
      emptyAgg_def addFire_def addByCentroid_def madrid_fire_def cell_c_def updateProps_def
      getFireSize_def madrid_features_def)

theorem size_class_from_area_and_count_witness:
  "addFireDataToMap cells_ab cell_c 5 [gridFeature ''a'', gridFeature ''c''] [madrid_fire] =
     Inr madrid_features \<and>
   list_all (\<lambda>f. size_class f = sizeClassSpec (fireCount f) (totalArea f)) madrid_features \<and>
   cumulate cell_c [madrid_fire] ''2025-08-01'' ''2025-08-02'' 6 = Inr madrid_result \<and>
   list_all (\<lambda>p. size_class (snd p) = sizeClassSpec (fireCount (snd p)) (totalArea (snd p)))
     (hexagonData madrid_result)"
  using size_class_from_area_and_count
          [of cells_ab cell_c 5 "[gridFeature ''a'', gridFeature ''c'']" "[madrid_fire]"
             madrid_features "''2025-08-01''" "''2025-08-02''" 6 madrid_result]
    addFireDataToMap_madrid cumulate_madrid
  by (simp add: list_all_iff)

text \<open>
  C9: the resolution for a zoom level is 6 below zoom 9 and 7 from zoom 9 on, for every
  zoom level, and the frontend and the backend functions agree.
\<close>
theorem resolution_for_zoom:
  "(zoom < 9 \<longrightarrow> getResolutionForZoom zoom = 6) \<and>
   (9 \<le> zoom \<longrightarrow> getResolutionForZoom zoom = 7) \<and>
   HexagonGridService_getResolutionForZoom zoom = getResolutionForZoom zoom"
  by (simp add: getResolutionForZoom_def HexagonGridService_getResolutionForZoom_def)

theorem resolution_for_zoom_witness:
  "(5::real) < 9 \<and> getResolutionForZoom 5 = 6 \<and>
   (9::real) \<le> 12 \<and> getResolutionForZoom 12 = 7 \<and>
   HexagonGridService_getResolutionForZoom 5 = 6 \<and>
   HexagonGridService_getResolutionForZoom 12 = 7"
  using resolution_for_zoom [of 5] resolution_for_zoom [of 12]
  by simp

section \<open>Grid service: cache, validation, viewport covering and GeoJSON rings\<close>

lemma generate_spain_x:
  "generateHexagonGridForSpain cover_x hexagon_ring ''2025-08-02T10:00:00.000Z'' 6 =
     Inr spain_grid_x"
  by (simp add: generateHexagonGridForSpain_def cover_x_def toHexagons_def spain_grid_x_def)

lemma generate_paris_x:
  "generateHexagonGridForViewport cover_x hexagon_ring ''2025-08-02T10:00:00.000Z'' 6 paris_view =
     Inr paris_grid_x"
  by (simp add: generateHexagonGridForViewport_def cover_x_def toHexagons_def paris_grid_x_def)

lemma getSpain_x:
  "getHexagonGridForSpain cover_x hexagon_ring ''2025-08-02T10:00:00.000Z'' True Map.empty 6 =
     (Inr spain_grid_x, [getCacheFilePath 6 None \<mapsto> spain_grid_x])"
  by (simp add: getHexagonGridForSpain_def generate_spain_x writeFile_def)

lemma getParis_x:
  "getHexagonGridForViewport cover_x hexagon_ring ''2025-08-02T10:00:00.000Z'' True Map.empty 5
     paris_view =
     (Inr paris_grid_x, [getCacheFilePath 6 (Some paris_view) \<mapsto> paris_grid_x])"
  by (simp add: getHexagonGridForViewport_def HexagonGridService_getResolutionForZoom_def
      generate_paris_x writeFile_def)

text \<open>
  C8: when a grid getter has returned a grid and the cache file of its resolution and
  region holds that grid, the next call with the same resolution and region returns the
  same grid, hence the same cell ids, whatever the h3 calls would now give; and a call
  whose write succeeds does leave its result in the cache file.
\<close>
theorem grid_cache_idempotent:
  "(getHexagonGridForSpain polygonToCells cellToBoundary now writeOk files res = (Inr g, files')
      \<and> files' (getCacheFilePath res None) = Some g \<longrightarrow>
    getHexagonGridForSpain polygonToCells' cellToBoundary' now' writeOk' files' res
      = (Inr g, files')) \<and>
   (getHexagonGridForViewport polygonToCells cellToBoundary now writeOk files zoom vp
      = (Inr gv, files'')
      \<and> files'' (getCacheFilePath (HexagonGridService_getResolutionForZoom zoom) (Some vp))
          = Some gv \<longrightarrow>
    getHexagonGridForViewport polygonToCells' cellToBoundary' now' writeOk' files'' zoom vp
      = (Inr gv, files'')) \<and>
   (getHexagonGridForSpain polygonToCells cellToBoundary now True files res = (Inr g, files')
      \<longrightarrow> files' (getCacheFilePath res None) = Some g) \<and>
   (getHexagonGridForViewport polygonToCells cellToBoundary now True files zoom vp
      = (Inr gv, files'') \<longrightarrow>
    files'' (getCacheFilePath (HexagonGridService_getResolutionForZoom zoom) (Some vp))
      = Some gv)"
proof (intro conjI impI)
  assume a: "getHexagonGridForSpain polygonToCells cellToBoundary now writeOk files res
               = (Inr g, files') \<and> files' (getCacheFilePath res None) = Some g"
  then have "\<not> (res < 0 \<or> res > 15)"
    by (auto simp: getHexagonGridForSpain_def)
  with a show "getHexagonGridForSpain polygonToCells' cellToBoundary' now' writeOk' files' res
                 = (Inr g, files')"
    by (simp add: getHexagonGridForSpain_def)
next
  assume "getHexagonGridForViewport polygonToCells cellToBoundary now writeOk files zoom vp
            = (Inr gv, files'')
          \<and> files'' (getCacheFilePath (HexagonGridService_getResolutionForZoom zoom) (Some vp))
              = Some gv"
  then show "getHexagonGridForViewport polygonToCells' cellToBoundary' now' writeOk' files'' zoom vp
               = (Inr gv, files'')"
    by (simp add: getHexagonGridForViewport_def)
next
  assume "getHexagonGridForSpain polygonToCells cellToBoundary now True files res
            = (Inr g, files')"
  then show "files' (getCacheFilePath res None) = Some g"
    by (auto simp: getHexagonGridForSpain_def writeFile_def Let_def
        split: if_splits option.splits sum.splits)
next
  assume "getHexagonGridForViewport polygonToCells cellToBoundary now True files zoom vp
            = (Inr gv, files'')"
  then show "files'' (getCacheFilePath (HexagonGridService_getResolutionForZoom zoom) (Some vp))
               = Some gv"
    by (auto simp: getHexagonGridForViewport_def writeFile_def Let_def
        split: option.splits sum.splits)
qed

theorem grid_cache_idempotent_witness:
  "getHexagonGridForSpain cover_x hexagon_ring ''2025-08-02T10:00:00.000Z'' True Map.empty 6 =
     (Inr spain_grid_x, [getCacheFilePath 6 None \<mapsto> spain_grid_x]) \<and>
   getHexagonGridForSpain cover_fails hexagon_ring ''2025-08-03T08:30:00.000Z'' False
     [getCacheFilePath 6 None \<mapsto> spain_grid_x] 6 =
     (Inr spain_grid_x, [getCacheFilePath 6 None \<mapsto> spain_grid_x]) \<and>
   getHexagonGridForViewport cover_x hexagon_ring ''2025-08-02T10:00:00.000Z'' True Map.empty 5
     paris_view =
     (Inr paris_grid_x, [getCacheFilePath 6 (Some paris_view) \<mapsto> paris_grid_x]) \<and>
   getHexagonGridForViewport cover_fails hexagon_ring ''2025-08-03T08:30:00.000Z'' False
     [getCacheFilePath 6 (Some paris_view) \<mapsto> paris_grid_x] 5 paris_view =
     (Inr paris_grid_x, [getCacheFilePath 6 (Some paris_view) \<mapsto> paris_grid_x])"
  using grid_cache_idempotent
          [of cover_x hexagon_ring "''2025-08-02T10:00:00.000Z''" True Map.empty 6 spain_grid_x
              "[getCacheFilePath 6 None \<mapsto> spain_grid_x]"
              cover_fails hexagon_ring "''2025-08-03T08:30:00.000Z''" False
              5 paris_view paris_grid_x
              "[getCacheFilePath 6 (Some paris_view) \<mapsto> paris_grid_x]"]
    getSpain_x getParis_x
  by (simp add: HexagonGridService_getResolutionForZoom_def)

lemma route_rejects:
  assumes "parseInt r = None \<or> (\<exists>n. parseInt r = Some n \<and> (n < 0 \<or> 15 < n))"
  shows "\<exists>e. cumulatedFiresRoute parseInt latLngToCell getDataForDate daysOf cache
               startDate endDate (Some r) = (Status400 e, cache)"
  using assms
  by (auto simp: cumulatedFiresRoute_def split: option.splits)

lemma route_rejects_resolution:
  assumes "parseInt r = None \<or> (\<exists>n. parseInt r = Some n \<and> (n < 0 \<or> 15 < n))"
    and "r \<noteq> []" and "sd \<noteq> []" and "ed \<noteq> []" and "dateRegexTest sd" and "dateRegexTest ed"
  shows "cumulatedFiresRoute parseInt latLngToCell getDataForDate daysOf cache
           (Some sd) (Some ed) (Some r) = (Status400 InvalidResolutionParam, cache)"
  using assms
  by (auto simp: cumulatedFiresRoute_def split: option.splits)

lemma route_accepts:
  assumes "parseInt r = Some n" and "0 \<le> n" and "n \<le> 15"
  shows "fst (cumulatedFiresRoute parseInt latLngToCell getDataForDate daysOf cache
                startDate endDate (Some r)) \<noteq> Status400 InvalidResolutionParam"
  using assms
  by (auto simp: cumulatedFiresRoute_def split: option.splits sum.splits prod.splits)

text \<open>
  C7: a resolution outside 0..15 makes \<open>getHexagonGridForSpain\<close> fail with the invalid
  resolution error and the route \<open>GET /api/cumulated-fires\<close> answer 400, with the cache
  untouched and whatever the h3 calls and the record store would give; a resolution
  within 0..15 never gives the invalid resolution error.
\<close>
theorem resolution_validated_first:
  "(res < 0 \<or> 15 < res \<longrightarrow>
      getHexagonGridForSpain polygonToCells cellToBoundary now writeOk files res
        = (Inl (InvalidResolution res), files) \<and>
      (parseInt r = Some res \<longrightarrow>
         (\<exists>e. cumulatedFiresRoute parseInt latLngToCell getDataForDate daysOf cache
                 startDate endDate (Some r) = (Status400 e, cache)) \<and>
         (r \<noteq> [] \<and> sd \<noteq> [] \<and> ed \<noteq> [] \<and> dateRegexTest sd \<and> dateRegexTest ed \<longrightarrow>
            cumulatedFiresRoute parseInt latLngToCell getDataForDate daysOf cache
              (Some sd) (Some ed) (Some r) = (Status400 InvalidResolutionParam, cache)))) \<and>
   (0 \<le> res \<and> res \<le> 15 \<longrightarrow>
      (\<forall>n. fst (getHexagonGridForSpain polygonToCells cellToBoundary now writeOk files res)
             \<noteq> Inl (InvalidResolution n)) \<and>
      (parseInt r = Some res \<longrightarrow>
         fst (cumulatedFiresRoute parseInt latLngToCell getDataForDate daysOf cache
                startDate endDate (Some r)) \<noteq> Status400 InvalidResolutionParam))"
proof (intro conjI impI allI)
  assume "res < 0 \<or> 15 < res"
  then show "getHexagonGridForSpain polygonToCells cellToBoundary now writeOk files res
               = (Inl (InvalidResolution res), files)"
    by (auto simp: getHexagonGridForSpain_def)
next
  assume "res < 0 \<or> 15 < res" and "parseInt r = Some res"
  then show "\<exists>e. cumulatedFiresRoute parseInt latLngToCell getDataForDate daysOf cache
                   startDate endDate (Some r) = (Status400 e, cache)"
    by (intro route_rejects) simp
next
  assume "res < 0 \<or> 15 < res" and "parseInt r = Some res"
    and "r \<noteq> [] \<and> sd \<noteq> [] \<and> ed \<noteq> [] \<and> dateRegexTest sd \<and> dateRegexTest ed"
  then show "cumulatedFiresRoute parseInt latLngToCell getDataForDate daysOf cache
               (Some sd) (Some ed) (Some r) = (Status400 InvalidResolutionParam, cache)"
    by (intro route_rejects_resolution) simp_all
next
  fix n
  assume "0 \<le> res \<and> res \<le> 15"
  then show "fst (getHexagonGridForSpain polygonToCells cellToBoundary now writeOk files res)
               \<noteq> Inl (InvalidResolution n)"
    by (auto simp: getHexagonGridForSpain_def Let_def split: option.splits sum.splits)
next
  assume "0 \<le> res \<and> res \<le> 15" and "parseInt r = Some res"
  then show "fst (cumulatedFiresRoute parseInt latLngToCell getDataForDate daysOf cache
                    startDate endDate (Some r)) \<noteq> Status400 InvalidResolutionParam"
    by (intro route_accepts [of parseInt r res]) simp_all
qed

lemma route_sample_6:
  "cumulatedFiresRoute parse_sample cell_c one_day_store two_days []
     (Some ''2025-08-01'') (Some ''2025-08-02'') (Some ''6'') =
     (Status200 madrid_result, [((''2025-08-01'', ''2025-08-02'', 6), madrid_result)])"
  by (simp add: cumulatedFiresRoute_def parse_sample_def isDigit_def calculate_madrid)

theorem resolution_validated_first_witness:
  "getHexagonGridForSpain cover_x hexagon_ring ''2025-08-02T10:00:00.000Z'' True Map.empty 99 =
     (Inl (InvalidResolution 99), Map.empty) \<and>
   parse_sample ''99'' = Some 99 \<and> dateRegexTest ''2025-08-01'' \<and> dateRegexTest ''2025-08-02'' \<and>
   cumulatedFiresRoute parse_sample cell_c one_day_store two_days []
     (Some ''2025-08-01'') (Some ''2025-08-02'') (Some ''99'') =
     (Status400 InvalidResolutionParam, []) \<and>
   fst (getHexagonGridForSpain cover_x hexagon_ring ''2025-08-02T10:00:00.000Z'' True Map.empty 6)
     = Inr spain_grid_x \<and>
   parse_sample ''6'' = Some 6 \<and>
   fst (cumulatedFiresRoute parse_sample cell_c one_day_store two_days []
          (Some ''2025-08-01'') (Some ''2025-08-02'') (Some ''6'')) = Status200 madrid_result"
  using resolution_validated_first
          [of 99 cover_x hexagon_ring "''2025-08-02T10:00:00.000Z''" True Map.empty
              parse_sample "''99''" cell_c one_day_store two_days "[]"
              "Some ''2025-08-01''" "Some ''2025-08-02''" "''2025-08-01''" "''2025-08-02''"]
        resolution_validated_first
          [of 6 cover_x hexagon_ring "''2025-08-02T10:00:00.000Z''" True Map.empty
              parse_sample "''6''" cell_c one_day_store two_days "[]"
              "Some ''2025-08-01''" "Some ''2025-08-02''" "''2025-08-01''" "''2025-08-02''"]
        getSpain_x route_sample_6
  by (simp add: parse_sample_def isDigit_def)

lemma toHexagons_index: "map index (toHexagons cellToBoundary hexagonIndexes) = hexagonIndexes"
  by (simp add: toHexagons_def comp_def)

text \<open>
  C6 (amended): grid generation for a viewport covers the rectangle of the viewport
  itself, wherever it lies: when the covering yields cell indexes the grid has exactly
  one hexagon per index, so it is empty exactly when the covering is; when the covering
  fails the generation fails.
\<close>
theorem viewport_grid_covers_viewport:
  "(polygonToCells (boundsPolygon vp) res = Inr hexagonIndexes \<longrightarrow>
      (\<exists>g. generateHexagonGridForViewport polygonToCells cellToBoundary now res vp = Inr g \<and>
           map index (hexagons g) = hexagonIndexes \<and>
           totalHexagons (metadata g) = length hexagonIndexes \<and>
           (hexagons g = []) = (hexagonIndexes = []))) \<and>
   (polygonToCells (boundsPolygon vp) res = Inl e \<longrightarrow>
      generateHexagonGridForViewport polygonToCells cellToBoundary now res vp = Inl e)"
  by (auto simp: generateHexagonGridForViewport_def Let_def toHexagons_index)
     (simp_all add: toHexagons_def)

theorem viewport_grid_covers_viewport_witness:
  "cover_x (boundsPolygon paris_view) 6 = Inr [''x''] \<and>
   generateHexagonGridForViewport cover_x hexagon_ring ''2025-08-02T10:00:00.000Z'' 6 paris_view
     = Inr paris_grid_x \<and>
   map index (hexagons paris_grid_x) = [''x''] \<and>
   cover_fails (boundsPolygon paris_view) 6 = Inl H3Failure \<and>
   generateHexagonGridForViewport cover_fails hexagon_ring ''2025-08-02T10:00:00.000Z'' 6
     paris_view = Inl H3Failure"
  using viewport_grid_covers_viewport
          [of cover_x paris_view 6 "[''x'']" hexagon_ring "''2025-08-02T10:00:00.000Z''"]
        viewport_grid_covers_viewport
          [of cover_fails paris_view 6 _ hexagon_ring "''2025-08-02T10:00:00.000Z''" H3Failure]
        generate_paris_x
  by (simp add: cover_x_def cover_fails_def)

text \<open>
  C6 as stated fails: a viewport wholly outside the bounds of the territory need not
  give an empty grid, since the rectangle of the viewport is covered as it is.
\<close>

theorem outside_viewport_counterexample:
  "\<not> (\<forall>polygonToCells cellToBoundary now res vp.
         outsideSpain vp \<longrightarrow>
         (\<exists>g. generateHexagonGridForViewport polygonToCells cellToBoundary now res vp = Inr g \<and>
              hexagons g = []))"
proof
  assume "\<forall>polygonToCells cellToBoundary now res vp.
            outsideSpain vp \<longrightarrow>
            (\<exists>g. generateHexagonGridForViewport polygonToCells cellToBoundary now res vp = Inr g \<and>
                 hexagons g = [])"
  moreover have "outsideSpain paris_view"
    by (simp add: outsideSpain_def paris_view_def SPAIN_BOUNDS_def)
  ultimately obtain g where
    "generateHexagonGridForViewport cover_x hexagon_ring ''2025-08-02T10:00:00.000Z'' 6 paris_view
       = Inr g" and "hexagons g = []"
    by blast
  then show False
    by (auto simp: generate_paris_x paris_grid_x_def)
qed

lemma closedRing_swap:
  "closedRing (map (\<lambda>coord. (snd coord, fst coord)) r) = closedRing r"
proof (cases r)
  case Nil
  then show ?thesis by (simp add: closedRing_def)
next
  case (Cons v vs)
  have "last (map (\<lambda>coord. (snd coord, fst coord)) (v # vs)) =
        (snd (last (v # vs)), fst (last (v # vs)))"
    by (rule last_map) simp
  then show ?thesis
    unfolding Cons closedRing_def
    by (auto simp: prod_eq_iff simp del: last.simps)
qed

text \<open>
  C5: the ring emitted for a hexagon is its stored boundary with each pair swapped to
  longitude first, and it is closed exactly when the stored boundary is; no closing
  vertex is added. For a cell whose boundary, taken with \<open>formatAsGeoJson = false\<close>, has
  six distinct vertices the emitted ring has six vertices and is not closed.
\<close>
theorem geojson_ring_left_open:
  "coordinates (toFeature res hexagon) = [map (\<lambda>coord. (snd coord, fst coord)) (boundary hexagon)] \<and>
   list_all (\<lambda>ring. closedRing ring = closedRing (boundary hexagon))
     (coordinates (toFeature res hexagon)) \<and>
   getHexagonGridAsGeoJSON cover_x hexagon_ring ''2025-08-02T10:00:00.000Z'' True Map.empty 5 None
     = (Inr (toGeoJSON spain_grid_x), [getCacheFilePath 6 None \<mapsto> spain_grid_x]) \<and>
   map coordinates (features (toGeoJSON spain_grid_x)) =
     [[[(2.30, 48.60), (2.34, 48.62), (2.34, 48.66), (2.30, 48.68), (2.26, 48.66),
        (2.26, 48.62)]]] \<and>
   \<not> closedRing [(2.30, 48.60), (2.34, 48.62), (2.34, 48.66), (2.30, 48.68), (2.26, 48.66),
                  (2.26, 48.62)]"
proof (intro conjI)
  show "getHexagonGridAsGeoJSON cover_x hexagon_ring ''2025-08-02T10:00:00.000Z'' True Map.empty 5
          None = (Inr (toGeoJSON spain_grid_x), [getCacheFilePath 6 None \<mapsto> spain_grid_x])"
    by (simp add: getHexagonGridAsGeoJSON_def HexagonGridService_getResolutionForZoom_def
        getSpain_x)
  show "list_all (\<lambda>ring. closedRing ring = closedRing (boundary hexagon))
          (coordinates (toFeature res hexagon))"
    by (simp add: toFeature_def closedRing_swap)
qed (simp_all add: toFeature_def toGeoJSON_def spain_grid_x_def hexagon_ring_def closedRing_def)

section \<open>Binning by centroid: the cumulative aggregation and the frontend fallback\<close>

lemma addFireToHexagonByCentroid_map_of:
  assumes "addFireToHexagonByCentroid latLngToCell fire res hexData = Inr hexData'"
  shows "\<exists>h. centroidCell latLngToCell res fire = Inr h \<and>
             (\<forall>k. map_of hexData' k =
                    (if k = h then stepEntry (map_of hexData h) fire else map_of hexData k))"
proof -
  from assms obtain h where
    c: "centroidCell latLngToCell res fire = Inr h" and
    h: "hexData' = (if h \<in> fst ` set hexData then AList.map_entry h (bump fire) hexData
                   else hexData @ [(h, bump fire newHexagon)])"
    by (auto simp: addFireToHexagonByCentroid_eq centroidCell_def split: sum.splits)
  have "map_of hexData' k =
          (if k = h then stepEntry (map_of hexData h) fire else map_of hexData k)" for k
  proof (cases "h \<in> fst ` set hexData")
    case True
    then obtain y where "map_of hexData h = Some y"
      by (metis map_of_eq_None_iff not_Some_eq)
    with True show ?thesis
      by (simp add: h map_of_map_entry stepEntry_def)
  next
    case False
    then have "map_of hexData h = None"
      by (simp add: map_of_eq_None_iff)
    with False show ?thesis
      by (simp add: h map_add_def stepEntry_def split: option.splits)
  qed
  with c show ?thesis by blast
qed

lemma processFires_map_of:
  "processFires latLngToCell res fs (hexData, n, a) = Inr (hexData', n', a') \<Longrightarrow>
   map_of hexData' h =
     foldl stepEntry (map_of hexData h)
       (filter (\<lambda>fire. centroidCell latLngToCell res fire = Inr h) fs)"
proof (induction fs arbitrary: hexData n a)
  case Nil
  then show ?case by simp
next
  case (Cons fire rest)
  from Cons.prems obtain hd1 where
    step: "addFireToHexagonByCentroid latLngToCell fire res hexData = Inr hd1" and
    rest: "processFires latLngToCell res rest (hd1, n + 1, a + area_ha fire) =
             Inr (hexData', n', a')"
    by (auto split: sum.splits)
  from addFireToHexagonByCentroid_map_of [OF step] obtain h0 where
    c: "centroidCell latLngToCell res fire = Inr h0" and
    m: "\<And>k. map_of hd1 k =
             (if k = h0 then stepEntry (map_of hexData h0) fire else map_of hexData k)"
    by blast
  from Cons.IH [OF rest] c m [of h] show ?case
    by auto
qed

lemma stepEntry_Some: "stepEntry (Some x) fire = Some (bump fire x)"
  by (simp add: stepEntry_def)

lemma stepEntry_None: "stepEntry None fire = Some (bump fire newHexagon)"
  by (simp add: stepEntry_def)

lemma foldl_stepEntry_Some:
  "foldl stepEntry (Some x) mine =
     Some (x\<lparr>totalArea := totalArea x + sum_list (map area_ha mine),
             fireCount := fireCount x + length mine,
             fires := fires x @ map fire_id mine\<rparr>)"
proof (induction mine arbitrary: x)
  case Nil
  show ?case by simp
next
  case (Cons fire rest)
  have "foldl stepEntry (Some x) (fire # rest) = foldl stepEntry (Some (bump fire x)) rest"
    by (simp add: stepEntry_Some)
  also have "\<dots> = Some ((bump fire x)\<lparr>totalArea := totalArea (bump fire x) + sum_list (map area_ha rest),
             fireCount := fireCount (bump fire x) + length rest,
             fires := fires (bump fire x) @ map fire_id rest\<rparr>)"
    by (rule Cons.IH)
  finally show ?case
    by (simp add: bump_def add.assoc)
qed

lemma foldl_stepEntry_None:
  "foldl stepEntry None mine =
     (if mine = [] then None
      else Some \<lparr>totalArea = sum_list (map area_ha mine), fireCount = length mine,
                 fires = map fire_id mine, size_class = none\<rparr>)"
proof (cases mine)
  case Nil
  then show ?thesis by simp
next
  case (Cons fire rest)
  have "foldl stepEntry None (fire # rest) = foldl stepEntry (Some (bump fire newHexagon)) rest"
    by (simp add: stepEntry_None)
  then show ?thesis
    by (simp add: Cons foldl_stepEntry_Some bump_def newHexagon_def)
qed

lemma map_of_classifyHexagons:
  "map_of (classifyHexagons hexData) h =
     map_option (\<lambda>x. x\<lparr>size_class := CumulatedFireService_getFireSize (totalArea x)\<rparr>)
       (map_of hexData h)"
  by (induction hexData) (auto simp: classifyHexagons_def)

lemma cumulate_centroidBin:
  assumes "cumulate latLngToCell fs startDate endDate res = Inr r"
  shows "map_of (hexagonData r) h = centroidBin latLngToCell res fs h"
proof -
  from assms obtain hexData n a where
    p: "processFires latLngToCell res fs ([], 0, 0) = Inr (hexData, n, a)" and
    r: "hexagonData r = classifyHexagons hexData"
    by (auto simp: cumulate_def split: sum.splits)
  from processFires_map_of [OF p, of h] show ?thesis
    by (simp add: r map_of_classifyHexagons foldl_stepEntry_None centroidBin_def Let_def)
qed

lemma addFireToHexagonByCentroid_shape:
  "addFireToHexagonByCentroid latLngToCell (fire\<lparr>shape := s\<rparr>) res hexData =
   addFireToHexagonByCentroid latLngToCell fire res hexData"
  by (simp add: addFireToHexagonByCentroid_def case_prod_beta split: sum.splits)

lemma processFires_shape:
  "processFires latLngToCell res (map (\<lambda>f. f\<lparr>shape := None\<rparr>) fs) acc =
   processFires latLngToCell res fs acc"
proof (induction fs arbitrary: acc)
  case Nil
  show ?case by simp
next
  case (Cons fire rest)
  obtain hexData n a where acc: "acc = (hexData, n, a)"
    using prod_cases3 by blast
  show ?case
    by (simp add: acc addFireToHexagonByCentroid_shape Cons.IH split: sum.splits)
qed

lemma addFire_centroid:
  assumes "shape fire = None \<or> shape fire = Some [] \<or>
           (\<exists>cs e. shape fire = Some cs \<and>
                   polygonToCells (toH3Polygons cs) (getResolutionForZoom zoom) = Inl e)"
  shows "addFire polygonToCells latLngToCell zoom fire m =
           addByCentroid latLngToCell (getResolutionForZoom zoom) fire m"
  using assms by (auto simp: addFire_def Let_def)


lemma addByCentroid_map_of:
  assumes "centroidCell latLngToCell res fire = Inr h"
  shows "\<exists>m'. addByCentroid latLngToCell res fire m = Inr m' \<and>
              (\<forall>k. map_of m' k =
                     (if k = h then map_option (bumpAgg fire (area_ha fire)) (map_of m h)
                      else map_of m k))"
proof (cases "map_of m h")
  case None
  with assms show ?thesis
    by (simp add: addByCentroid_def centroidCell_def case_prod_beta)
next
  case (Some d)
  with assms show ?thesis
    by (simp add: addByCentroid_def centroidCell_def case_prod_beta update_conv' bumpAgg_def)
qed

lemma shape_triangle: "shape triangle_fire = Some triangle_rings"
  by (simp add: triangle_fire_def triangle_rings_def)

lemma addFire_triangle_rejected:
  "addFire rejects_polygons cell_a 5 triangle_fire grid_ab =
     Inr [(''a'', triangle_whole), (''b'', emptyAgg)]"
  by (simp add: addFire_def shape_triangle triangle_rings_def rejects_polygons_def
      addByCentroid_def cell_a_def grid_ab_def emptyAgg_def triangle_whole_def)
     (simp add: triangle_fire_def)

lemma cumulate_triangle:
  "cumulate cell_a [triangle_fire] ''2025-08-01'' ''2025-08-02'' 6 = Inr triangle_result"
  by (simp add: cumulate_def addFireToHexagonByCentroid_def triangle_fire_def cell_a_def
      newHexagon_def classifyHexagons_def CumulatedFireService_getFireSize_def
      triangle_result_def)


text \<open>
  C4 (amended): the cumulative aggregation bins every record, with or without polygon
  geometry, by its centroid: the entry of a cell holds the sum of the areas, the number
  and the ids of the records whose centroid resolves to the cell, there is no entry for
  another cell, a result is returned when every centroid resolves, and the polygons are
  not consulted. In the frontend a record without polygon geometry, or whose
  polygon-to-cell call throws, is binned by its centroid: the cell of the centroid
  receives the full area, one more fire and the record if it is in the grid, and no
  other cell changes.
\<close>
theorem centroid_binning_of_every_record:
  "(cumulate latLngToCell fs startDate endDate res = Inr r \<longrightarrow>
      (\<forall>h. map_of (hexagonData r) h = centroidBin latLngToCell res fs h)) \<and>
   ((\<forall>fire \<in> set fs. resolves latLngToCell res fire) \<longrightarrow>
      (\<exists>r'. cumulate latLngToCell fs startDate endDate res = Inr r')) \<and>
   cumulate latLngToCell (map (\<lambda>f. f\<lparr>shape := None\<rparr>) fs) startDate endDate res =
     cumulate latLngToCell fs startDate endDate res \<and>
   (shape fire = None \<or> shape fire = Some [] \<or>
    (\<exists>cs e. shape fire = Some cs \<and>
            polygonToCells (toH3Polygons cs) (getResolutionForZoom zoom) = Inl e) \<longrightarrow>
      addFire polygonToCells latLngToCell zoom fire m =
        addByCentroid latLngToCell (getResolutionForZoom zoom) fire m) \<and>
   (centroidCell latLngToCell (getResolutionForZoom zoom) fire = Inr c \<longrightarrow>
      (\<exists>m'. addByCentroid latLngToCell (getResolutionForZoom zoom) fire m = Inr m' \<and>
            (\<forall>k. map_of m' k =
                   (if k = c then map_option (bumpAgg fire (area_ha fire)) (map_of m c)
                    else map_of m k))))"
proof (intro conjI impI allI)
  fix h
  assume "cumulate latLngToCell fs startDate endDate res = Inr r"
  then show "map_of (hexagonData r) h = centroidBin latLngToCell res fs h"
    by (rule cumulate_centroidBin)
next
  assume "\<forall>fire \<in> set fs. resolves latLngToCell res fire"
  then show "\<exists>r'. cumulate latLngToCell fs startDate endDate res = Inr r'"
    by (rule cumulate_resolves)
next
  show "cumulate latLngToCell (map (\<lambda>f. f\<lparr>shape := None\<rparr>) fs) startDate endDate res =
          cumulate latLngToCell fs startDate endDate res"
    by (simp add: cumulate_def processFires_shape)
next
  assume "shape fire = None \<or> shape fire = Some [] \<or>
          (\<exists>cs e. shape fire = Some cs \<and>
                  polygonToCells (toH3Polygons cs) (getResolutionForZoom zoom) = Inl e)"
  then show "addFire polygonToCells latLngToCell zoom fire m =
               addByCentroid latLngToCell (getResolutionForZoom zoom) fire m"
    by (rule addFire_centroid)
next
  assume "centroidCell latLngToCell (getResolutionForZoom zoom) fire = Inr c"
  then show "\<exists>m'. addByCentroid latLngToCell (getResolutionForZoom zoom) fire m = Inr m' \<and>
            (\<forall>k. map_of m' k =
                   (if k = c then map_option (bumpAgg fire (area_ha fire)) (map_of m c)
                    else map_of m k))"
    by (rule addByCentroid_map_of)
qed

theorem centroid_binning_of_every_record_witness:
  "cumulate cell_a [triangle_fire] ''2025-08-01'' ''2025-08-02'' 6 = Inr triangle_result \<and>
   resolves cell_a 6 triangle_fire \<and>
   map_of (hexagonData triangle_result) ''a'' = centroidBin cell_a 6 [triangle_fire] ''a'' \<and>
   map_of (hexagonData triangle_result) ''a'' =
     Some \<lparr>totalArea = 40000, fireCount = 1, fires = [2], size_class = large\<rparr> \<and>
   map_of (hexagonData triangle_result) ''b'' = None \<and>
   shape triangle_fire = Some triangle_rings \<and>
   rejects_polygons (toH3Polygons triangle_rings) (getResolutionForZoom 5) = Inl H3Failure \<and>
   addFire rejects_polygons cell_a 5 triangle_fire grid_ab =
     addByCentroid cell_a (getResolutionForZoom 5) triangle_fire grid_ab \<and>
   centroidCell cell_a (getResolutionForZoom 5) triangle_fire = Inr ''a'' \<and>
   addByCentroid cell_a (getResolutionForZoom 5) triangle_fire grid_ab =
     Inr [(''a'', triangle_whole), (''b'', emptyAgg)] \<and>
   map_of [(''a'', triangle_whole), (''b'', emptyAgg)] ''a'' =
     map_option (bumpAgg triangle_fire (area_ha triangle_fire)) (map_of grid_ab ''a'')"
proof -
  have rej: "rejects_polygons (toH3Polygons triangle_rings) (getResolutionForZoom 5) = Inl H3Failure"
    by (simp add: rejects_polygons_def)
  have cc: "centroidCell cell_a (getResolutionForZoom 5) triangle_fire = Inr ''a''"
    by (simp add: centroidCell_def cell_a_def)
  have res: "resolves cell_a 6 triangle_fire"
    by (simp add: resolves_def cell_a_def)
  have b: "map_of (hexagonData triangle_result) ''b'' = None"
    and a: "map_of (hexagonData triangle_result) ''a'' =
              Some \<lparr>totalArea = 40000, fireCount = 1, fires = [2], size_class = large\<rparr>"
    by (simp_all add: triangle_result_def)
  have bumped: "map_of [(''a'', triangle_whole), (''b'', emptyAgg)] ''a'' =
     map_option (bumpAgg triangle_fire (area_ha triangle_fire)) (map_of grid_ab ''a'')"
    by (simp add: grid_ab_def bumpAgg_def emptyAgg_def triangle_whole_def)
       (simp add: triangle_fire_def)
  from centroid_binning_of_every_record
         [of cell_a "[triangle_fire]" "''2025-08-01''" "''2025-08-02''" 6 triangle_result
             triangle_fire rejects_polygons 5 grid_ab "''a''"]
       cumulate_triangle shape_triangle rej cc res a b bumped addFire_triangle_rejected
  show ?thesis by auto
qed

text \<open>
  C4 as stated fails for the cumulative aggregation: a record whose polygon covers the
  cells a and b, with its centroid in a, is added with its whole area to a alone.
\<close>

theorem cumulative_binning_counterexample:
  "\<not> (\<forall>(polygonToCells::PolygonToCells) latLngToCell fire p cells startDate endDate res r.
         shape fire = Some [p] \<and>
         polygonToCells (map (map swapPos) p) res = Inr cells \<and> cells \<noteq> [] \<and>
         cumulate latLngToCell [fire] startDate endDate res = Inr r \<longrightarrow>
         list_all (\<lambda>h. map_option fireCount (map_of (hexagonData r) h) = Some 1 \<and>
                       map_option totalArea (map_of (hexagonData r) h) =
                         Some (area_ha fire / real (length cells))) cells)"
proof
  assume claim: "\<forall>(polygonToCells::PolygonToCells) latLngToCell fire p cells startDate endDate res r.
         shape fire = Some [p] \<and>
         polygonToCells (map (map swapPos) p) res = Inr cells \<and> cells \<noteq> [] \<and>
         cumulate latLngToCell [fire] startDate endDate res = Inr r \<longrightarrow>
         list_all (\<lambda>h. map_option fireCount (map_of (hexagonData r) h) = Some 1 \<and>
                       map_option totalArea (map_of (hexagonData r) h) =
                         Some (area_ha fire / real (length cells))) cells"
  have "shape triangle_fire = Some [[[(-3.9, 40.2), (-3.6, 40.2), (-3.6, 40.5), (-3.9, 40.2)]]]"
    by (simp add: triangle_fire_def)
  moreover have "cover_ab (map (map swapPos) [[(-3.9, 40.2), (-3.6, 40.2), (-3.6, 40.5), (-3.9, 40.2)]]) 6
                   = Inr [''a'', ''b'']"
    by (simp add: cover_ab_def)
  moreover note cumulate_triangle
  ultimately have
    "list_all (\<lambda>h. map_option fireCount (map_of (hexagonData triangle_result) h) = Some 1 \<and>
                   map_option totalArea (map_of (hexagonData triangle_result) h) =
                     Some (area_ha triangle_fire / real (length [''a'', ''b'']))) [''a'', ''b'']"
    using claim [rule_format, where polygonToCells = cover_ab and latLngToCell = cell_a
        and fire = triangle_fire
        and p = "[[(-3.9, 40.2), (-3.6, 40.2), (-3.6, 40.5), (-3.9, 40.2)]]"
        and cells = "[''a'', ''b'']"
        and startDate = "''2025-08-01''" and endDate = "''2025-08-02''" and res = 6
        and r = triangle_result]
    by simp
  then show False
    by (simp add: triangle_result_def)
qed

end
